theory Spec2Isabelle
  imports Main "HOL-Library.AList"
begin

section \<open>XEP-0333 chat markers: the data model\<close>

text \<open>
  The module under study keeps, per conversation, a collection of chat markers
  (\<open>chat.markers\<close>), decides when to send a marker stanza, and folds incoming markers
  into the collection.  JavaScript objects are modelled by records.  An attribute is an
  \<open>option\<close> exactly where the source tests it for presence (\<open>||\<close>, \<open>?.\<close>, \<open>??\<close>,
  \<open>if (x)\<close>, a default parameter); \<open>None\<close> stands for \<open>undefined\<close>.
\<close>

type_synonym jid = string

datatype error = TypeError string

text \<open>A message model: the attributes read through \<open>message.get(...)\<close>.\<close>

record message =
  msg_type :: "string option"               \<comment> \<open>\<open>get('type')\<close>\<close>
  msg_from :: jid                           \<comment> \<open>\<open>get('from')\<close>\<close>
  msgid :: string                           \<comment> \<open>\<open>get('msgid')\<close>, the client-generated id\<close>
  stanza_id :: "string \<Rightarrow> string option"    \<comment> \<open>\<open>get(`stanza_id ${jid}`)\<close>, by the interpolated part\<close>
  msg_marker :: "string option"             \<comment> \<open>\<open>get('marker')\<close>\<close>
  is_markable :: bool                       \<comment> \<open>\<open>get('is_markable')\<close>\<close>
  msg_time :: int                           \<comment> \<open>\<open>get('time')\<close>, as milliseconds since the epoch\<close>
  msg_body :: "string option"               \<comment> \<open>\<open>get('body')\<close>\<close>
  is_new :: bool                            \<comment> \<open>what \<open>u.isNewMessage(message)\<close> answers\<close>
  msg_lists :: "string \<Rightarrow> jid list option"   \<comment> \<open>array-valued attributes, by attribute name\<close>

text \<open>
  A \<open>ChatMarker\<close> model: \<open>id\<close>, \<open>marked_by\<close> (an object from JID to marker type, kept
  as an association list in insertion order) and \<open>time\<close>.
\<close>

record chat_marker =
  marker_id :: string
  marked_by :: "(jid \<times> string) list option"
  marker_time :: int

text \<open>A chat box or chat room, with the attributes and collections the module reads.\<close>

record chat =
  chat_type :: string                       \<comment> \<open>\<open>chat.get('type')\<close>\<close>
  chat_jid :: jid                           \<comment> \<open>\<open>chat.get('jid')\<close>\<close>
  occupants :: "jid list"                   \<comment> \<open>\<open>chat.occupants\<close>\<close>
  markers :: "chat_marker list"             \<comment> \<open>\<open>chat.markers\<close>, in collection order\<close>
  messages :: "message list"                \<comment> \<open>\<open>chat.messages.models\<close>\<close>
  hidden :: bool                            \<comment> \<open>what \<open>chat.isHidden()\<close> answers\<close>
  num_unread :: int
  num_unread_general :: int
  has_activity :: bool

text \<open>
  The globals the functions read: fields of \<open>_converse\<close>, the two settings behind
  \<open>api.settings.get\<close>, and the wall clock read by \<open>new Date()\<close>.
\<close>

record env =
  bare_jid :: jid                           \<comment> \<open>\<open>_converse.bare_jid\<close>\<close>
  connection_jid :: jid                     \<comment> \<open>\<open>_converse.connection.jid\<close>\<close>
  CHATROOMS_TYPE :: string                  \<comment> \<open>\<open>_converse.CHATROOMS_TYPE\<close>\<close>
  muc_chat_markers_limit :: int             \<comment> \<open>\<open>api.settings.get('muc_chat_markers_limit')\<close>\<close>
  send_chat_markers :: "string list"        \<comment> \<open>\<open>api.settings.get('send_chat_markers')\<close>\<close>
  now :: int                                \<comment> \<open>\<open>new Date()\<close>, as milliseconds since the epoch\<close>

text \<open>The stanza built by \<open>sendChatMarker\<close>, and what the module does to the outside.\<close>

record stanza =
  st_from :: jid
  st_id :: nat                              \<comment> \<open>\<open>u.getUniqueId()\<close>\<close>
  st_to :: "jid option"
  st_type :: string
  st_marker :: string                       \<comment> \<open>name of the child element: the marker type\<close>
  st_marker_id :: string                    \<comment> \<open>its \<open>id\<close> attribute: the id of the marked message\<close>

record world =
  outbox :: "stanza list"                   \<comment> \<open>stanzas handed to \<open>api.send\<close>, oldest first\<close>
  next_uid :: nat                           \<comment> \<open>supply for \<open>u.getUniqueId()\<close>\<close>
  error_log :: "string list"                \<comment> \<open>lines given to \<open>log.error\<close>\<close>

text \<open>The attributes of an incoming stanza, as \<open>handleChatMarker\<close> receives them.\<close>

record message_attrs =
  attrs_to :: jid
  attrs_from :: jid
  attrs_marker_id :: "string option"
  attrs_marker :: "string option"

section \<open>Library functions the module calls\<close>

text \<open>
  Modelled from the spec: the rank table \<open>MARKER_TYPES\<close> of the plugin's own
  \<open>constants.js\<close>, which is not among the sources.  The spec fixes its keys and their
  order, received < displayed < acknowledged; the ranks are taken as 0, 1, 2.
\<close>

definition MARKER_TYPES :: "(string \<times> int) list" where
  "MARKER_TYPES = [(''received'', 0), (''displayed'', 1), (''acknowledged'', 2)]"

text \<open>JavaScript truthiness of a possibly undefined string.\<close>

fun truthy :: "string option \<Rightarrow> bool" where
  "truthy None = False"
| "truthy (Some s) = (s \<noteq> [])"

text \<open>\<open>a || b\<close> and \<open>a ? a : b\<close>, for a possibly undefined string \<open>a\<close> and a string \<open>b\<close>.\<close>

fun js_or :: "string option \<Rightarrow> string \<Rightarrow> string" where
  "js_or None b = b"
| "js_or (Some a) b = (if a = [] then b else a)"

text \<open>How a template literal prints a value that may be \<open>null\<close>.\<close>

fun tmpl :: "string option \<Rightarrow> string" where
  "tmpl None = ''null''"
| "tmpl (Some s) = s"

text \<open>
  \<open>Strophe.getBareJidFromJid\<close>, from the Strophe library:
  \<open>jid ? jid.split("/")[0] : null\<close>.
\<close>

definition getBareJidFromJid :: "jid \<Rightarrow> jid option" where
  "getBareJidFromJid j =
     (if j = [] then None else Some (takeWhile (\<lambda>c. c \<noteq> CHR ''/'') j))"

text \<open>
  \<open>Date.prototype.getMilliseconds\<close> and \<open>setMilliseconds\<close> on an instant given in
  milliseconds since the epoch (for a local time zone whose offset is a whole number of
  seconds): the first reads the millisecond field, the second replaces it and answers
  the new instant; a field value of 1000 carries into the next second.
\<close>

definition getMilliseconds :: "int \<Rightarrow> int" where
  "getMilliseconds t = t mod 1000"

definition setMilliseconds :: "int \<Rightarrow> int \<Rightarrow> int" where
  "setMilliseconds t ms = t - t mod 1000 + ms"

text \<open>
  The collection \<open>chat.markers\<close> is a list in collection order.  \<open>Collection.get(id)\<close>
  answers the model with that id, \<open>findWhere(predicate)\<close> the first model that satisfies
  the predicate, \<open>add(model)\<close> appends a model unless one with its id is already there.

  The collection class is not among the sources.  It looks a key up in a plain object
  that indexes every model under its id and under its cid, so a lookup by the name of
  a member of \<open>Object.prototype\<close> answers that member, which is no model, and a lookup
  by the cid of a stored model answers that model.  The list does neither: it stands
  for the collection on the keys and stores that \<open>plain_key\<close> and \<open>plain_store\<close>
  below describe, and the statements that rest on a lookup assume them.
\<close>

definition markers_get :: "chat_marker list \<Rightarrow> string \<Rightarrow> chat_marker option" where
  "markers_get store k = find (\<lambda>m. marker_id m = k) store"

definition findWhere :: "('a \<Rightarrow> bool) \<Rightarrow> 'a list \<Rightarrow> 'a option" where
  "findWhere p xs = find p xs"

definition markers_add :: "chat_marker list \<Rightarrow> chat_marker \<Rightarrow> chat_marker list" where
  "markers_add store m =
     (case markers_get store (marker_id m) of
        None \<Rightarrow> store @ [m]
      | Some existing \<Rightarrow> store)"

text \<open>
  \<open>model.save(attrs)\<close> changes one object of a collection in place: the first element
  equal to \<open>old\<close> becomes \<open>new\<close>.  \<open>model.destroy()\<close> takes it out: \<open>remove1\<close>.
\<close>

fun replace1 :: "'a \<Rightarrow> 'a \<Rightarrow> 'a list \<Rightarrow> 'a list" where
  "replace1 old new [] = []"
| "replace1 old new (x # xs) = (if x = old then new # xs else x # replace1 old new xs)"

definition marked_by_or_empty :: "chat_marker \<Rightarrow> (jid \<times> string) list" where
  "marked_by_or_empty m = (case marked_by m of None \<Rightarrow> [] | Some al \<Rightarrow> al)"

text \<open>
  Modelled from the spec: \<open>ChatMarker.removeMarkerJID\<close> of the plugin's \<open>marker.js\<close>,
  which is not among the sources.  The spec: remove that participant's entry from the
  record's \<open>marked_by\<close>; if that removal empties the mapping, delete the record.
\<close>

definition removeMarkerJID :: "chat_marker list \<Rightarrow> chat_marker \<Rightarrow> jid \<Rightarrow> chat_marker list" where
  "removeMarkerJID store m j =
     (let remaining = AList.delete j (marked_by_or_empty m)
      in if remaining = [] then remove1 m store
         else replace1 m (m\<lparr>marked_by := Some remaining\<rparr>) store)"

section \<open>The module\<close>

definition getMessageIdToMark :: "message \<Rightarrow> string" where
  "getMessageIdToMark message =
     (if msg_type message = Some ''groupchat'' then
        (let muc_jid = getBareJidFromJid (msg_from message)
         in js_or (stanza_id message (tmpl muc_jid)) (msgid message))
      else msgid message)"

text \<open>A parameter with the default \<open>'displayed'\<close>: \<open>None\<close> is the argument left out.\<close>

definition type_or_default :: "string option \<Rightarrow> string" where
  "type_or_default t = (case t of None \<Rightarrow> ''displayed'' | Some s \<Rightarrow> s)"

text \<open>
  The predicate of the scan: \<open>m.get('marked_by')?.[by_jid]\<close>, read as a condition.  The
  collection holds \<open>ChatMarker\<close> models only, so \<open>m instanceof ChatMarker\<close> is true.
\<close>

definition marks_jid :: "jid \<Rightarrow> chat_marker \<Rightarrow> bool" where
  "marks_jid by_jid m =
     (case marked_by m of
        None \<Rightarrow> False
      | Some al \<Rightarrow> truthy (map_of al by_jid))"

text \<open>
  \<open>addChatMarker\<close> answers \<open>Inl\<close> for the thrown \<open>TypeError\<close> (nothing has been changed
  when it is thrown), and otherwise the returned marker (\<open>None\<close> for the bare
  \<open>return\<close>) with the chat as the call leaves it.
\<close>

definition addChatMarker ::
  "env \<Rightarrow> chat \<Rightarrow> message \<Rightarrow> jid \<Rightarrow> string option \<Rightarrow> error + (chat_marker option \<times> chat)" where
  "addChatMarker e chat message by_jid type_arg =
     (let type = type_or_default type_arg in
      if chat_type chat = CHATROOMS_TYPE e \<and> by_jid \<noteq> bare_jid e \<and>
         int (length (occupants chat)) > muc_chat_markers_limit e
      then Inr (None, chat)
      else if type \<notin> set (map fst MARKER_TYPES)
      then Inl (TypeError ''Invalid XEP-0333 chat marker type'')
      else
        (let marked_message_id = getMessageIdToMark message;
             marked_entry = [(by_jid, type)]
         in case markers_get (markers chat) marked_message_id of
              Some marked \<Rightarrow>
                (let marked' = marked\<lparr>marked_by :=
                                  Some (AList.update by_jid type (marked_by_or_empty marked))\<rparr>
                 in Inr (Some marked', chat\<lparr>markers := replace1 marked marked' (markers chat)\<rparr>))
            | None \<Rightarrow>
                (let store = (case findWhere (marks_jid by_jid) (markers chat) of
                                None \<Rightarrow> markers chat
                              | Some old \<Rightarrow> removeMarkerJID (markers chat) old by_jid);
                     marker_data = \<lparr>marker_id = marked_message_id,
                                    marked_by = Some marked_entry,
                                    marker_time = setMilliseconds (now e)
                                                    (getMilliseconds (msg_time message) + 1)\<rparr>
                 in Inr (Some marker_data, chat\<lparr>markers := markers_add store marker_data\<rparr>))))"

definition sendChatMarker ::
  "env \<Rightarrow> world \<Rightarrow> jid option \<Rightarrow> string \<Rightarrow> string \<Rightarrow> string option \<Rightarrow> world" where
  "sendChatMarker e w to_jid mid type msg_type' =
     w\<lparr>outbox := outbox w @
          [\<lparr>st_from = connection_jid e,
            st_id = next_uid w,
            st_to = to_jid,
            st_type = js_or msg_type' ''chat'',
            st_marker = type,
            st_marker_id = mid\<rparr>],
       next_uid := Suc (next_uid w)\<rparr>"

text \<open>
  \<open>sendMarkerForMessage\<close> answers whether the marker went out, the message as
  \<open>msg.save\<close> leaves it, and the world.  The saved object literal \<open>{field_name: ...}\<close>
  has the key \<open>field_name\<close>.
\<close>

definition sendMarkerForMessage ::
  "env \<Rightarrow> world \<Rightarrow> message option \<Rightarrow> string option \<Rightarrow> bool \<Rightarrow> bool \<times> message option \<times> world" where
  "sendMarkerForMessage e w msg type_arg force =
     (let type = type_or_default type_arg in
      case msg of
        None \<Rightarrow> (False, None, w)
      | Some m \<Rightarrow>
          if type \<notin> set (send_chat_markers e) then (False, Some m, w)
          else if is_markable m \<or> force then
            (let from_jid = getBareJidFromJid (msg_from m);
                 w' = sendChatMarker e w from_jid (msgid m) type (msg_type m);
                 field_name = ''marked_'' @ type;
                 marked = (case msg_lists m field_name of None \<Rightarrow> [] | Some js \<Rightarrow> js)
             in (True,
                 Some (m\<lparr>msg_lists := (msg_lists m)(''field_name'' \<mapsto> marked @ [bare_jid e])\<rparr>),
                 w'))
          else (False, Some m, w))"

text \<open>
  The condition of the room guard,
  \<open>chat.markers.get(mid)?.get('marked_by')?.[_converse.bare_jid] ?? -1 > MARKER_TYPES[type]\<close>:
  the comparison binds tighter than \<open>??\<close>, so the condition is the stored entry itself
  when there is one, and \<open>-1 > MARKER_TYPES[type]\<close> when there is none.
\<close>

definition already_marked :: "env \<Rightarrow> chat \<Rightarrow> string \<Rightarrow> string \<Rightarrow> bool" where
  "already_marked e chat mid type =
     (let entry = (case markers_get (markers chat) mid of
                     None \<Rightarrow> None
                   | Some marked \<Rightarrow>
                       (case marked_by marked of
                          None \<Rightarrow> None
                        | Some al \<Rightarrow> map_of al (bare_jid e)))
      in case entry of
           Some level \<Rightarrow> truthy (Some level)
         | None \<Rightarrow> (case map_of MARKER_TYPES type of
                      None \<Rightarrow> False
                    | Some rank \<Rightarrow> -1 > rank))"

definition sendMarkerForMUCMessage ::
  "env \<Rightarrow> world \<Rightarrow> chat \<Rightarrow> message option \<Rightarrow> string option \<Rightarrow> error + (bool \<times> world)" where
  "sendMarkerForMUCMessage e w chat msg type_arg =
     (let type = type_or_default type_arg in
      if type \<notin> set (map fst MARKER_TYPES)
      then Inl (TypeError ''Invalid XEP-0333 chat marker type'')
      else case msg of
        None \<Rightarrow> Inr (False, w)
      | Some m \<Rightarrow>
          if type \<notin> set (send_chat_markers e) then Inr (False, w)
          else if is_markable m then
            (let mid = getMessageIdToMark m in
             if already_marked e chat mid type then Inr (False, w)
             else
               (let key = ''stanza_id '' @ chat_jid chat;
                    not_sent = Inr (False,
                                 w\<lparr>error_log := error_log w @
                                   [''Can't send marker for message without stanza ID: '' @ key]\<rparr>)
                in case stanza_id m (chat_jid chat) of
                     None \<Rightarrow> not_sent
                   | Some sid \<Rightarrow>
                       if sid = [] then not_sent
                       else
                         (let from_jid = getBareJidFromJid (msg_from m)
                          in Inr (True, sendChatMarker e w from_jid sid type (msg_type m)))))
          else Inr (False, w))"

text \<open>
  \<open>sendMarkerForLastMessage\<close>: the message found is an object of \<open>chat.messages\<close>, so
  what \<open>msg.save\<close> does to it shows in the chat.
\<close>

definition sendMarkerForLastMessage ::
  "env \<Rightarrow> world \<Rightarrow> chat \<Rightarrow> string option \<Rightarrow> bool \<Rightarrow> error + (chat \<times> world)" where
  "sendMarkerForLastMessage e w chat type_arg force =
     (let type = type_or_default type_arg;
          msgs = rev (messages chat)
      in case find (\<lambda>m. force \<or> is_markable m) msgs of
           None \<Rightarrow> Inr (chat, w)
         | Some msg \<Rightarrow>
             (case sendMarkerForMessage e w (Some msg) (Some type) force of
                (sent, msg', w') \<Rightarrow>
                  (let saved = (case msg' of None \<Rightarrow> msg | Some m' \<Rightarrow> m');
                       chat' = chat\<lparr>messages := rev (replace1 msg saved msgs)\<rparr>
                   in if sent then
                        (case addChatMarker e chat' saved (bare_jid e) None of
                           Inl err \<Rightarrow> Inl err
                         | Inr (marker, chat'') \<Rightarrow> Inr (chat'', w'))
                      else Inr (chat', w'))))"

text \<open>
  \<open>handleChatMarker\<close> answers the flag it returns and the conversation as it leaves it;
  a \<open>TypeError\<close> thrown by \<open>addChatMarker\<close> passes through.
\<close>

definition handleChatMarker ::
  "env \<Rightarrow> message_attrs \<Rightarrow> chat \<Rightarrow> bool \<Rightarrow> error + (bool \<times> chat)" where
  "handleChatMarker e attrs model handled =
     (let to_bare_jid = getBareJidFromJid (attrs_to attrs) in
      if to_bare_jid \<noteq> Some (bare_jid e) then Inr (handled, model)
      else if truthy (attrs_marker_id attrs) then
        (case findWhere (\<lambda>m. Some (msgid m) = attrs_marker_id attrs) (messages model) of
           None \<Rightarrow> Inr (True, model)
         | Some message \<Rightarrow>
             (case addChatMarker e model message (msg_from message) (msg_marker message) of
                Inl err \<Rightarrow> Inl err
              | Inr (marker, model') \<Rightarrow> Inr (True, model')))
      else Inr (handled, model))"

text \<open>
  \<open>handleUnreadMessage\<close>: the message is written back to \<open>chat.messages\<close> where it
  stands.
\<close>

definition handleUnreadMessage ::
  "env \<Rightarrow> world \<Rightarrow> chat \<Rightarrow> message option \<Rightarrow> error + (chat \<times> world)" where
  "handleUnreadMessage e w chat message =
     (case message of
        None \<Rightarrow> Inr (chat, w)
      | Some m \<Rightarrow>
          if \<not> truthy (msg_body m) then Inr (chat, w)
          else if \<not> is_new m then Inr (chat, w)
          else if hidden chat then Inr (chat, w)
          else
            (case sendMarkerForMessage e w (Some m) None False of
               (sent, msg', w') \<Rightarrow>
                 (let saved = (case msg' of None \<Rightarrow> m | Some m' \<Rightarrow> m');
                      chat' = chat\<lparr>messages := replace1 m saved (messages chat)\<rparr>
                  in if sent then
                       (case addChatMarker e chat' saved (bare_jid e) None of
                          Inl err \<Rightarrow> Inl err
                        | Inr (marker, chat'') \<Rightarrow> Inr (chat'', w'))
                     else Inr (chat', w'))))"

text \<open>\<open>chat.messages.last()\<close>: the last message, \<open>undefined\<close> when there is none.\<close>

definition last_message :: "chat \<Rightarrow> message option" where
  "last_message chat = (if messages chat = [] then None else Some (last (messages chat)))"

definition onUnreadsCleared :: "env \<Rightarrow> world \<Rightarrow> chat \<Rightarrow> error + (chat \<times> world)" where
  "onUnreadsCleared e w chat =
     (if chat_type chat = CHATROOMS_TYPE e then
        (if num_unread_general chat > 0 \<or> num_unread chat > 0 \<or> has_activity chat then
           (let message = last_message chat in
            case sendMarkerForMUCMessage e w chat message None of
              Inl err \<Rightarrow> Inl err
            | Inr (sent, w') \<Rightarrow>
                if sent then
                  (case message of
                     None \<Rightarrow> Inr (chat, w')
                   | Some m \<Rightarrow>
                       (case addChatMarker e chat m (bare_jid e) None of
                          Inl err \<Rightarrow> Inl err
                        | Inr (marker, chat') \<Rightarrow> Inr (chat', w')))
                else Inr (chat, w'))
         else Inr (chat, w))
      else
        (if num_unread chat > 0 then
           (let message = last_message chat in
            case sendMarkerForMessage e w message None False of
              (sent, msg', w') \<Rightarrow>
                (case msg' of
                   None \<Rightarrow> Inr (chat, w')
                 | Some saved \<Rightarrow>
                     (let chat' = chat\<lparr>messages := butlast (messages chat) @ [saved]\<rparr>
                      in if sent then
                           (case addChatMarker e chat' saved (bare_jid e) None of
                              Inl err \<Rightarrow> Inl err
                            | Inr (marker, chat'') \<Rightarrow> Inr (chat'', w'))
                         else Inr (chat', w'))))
         else Inr (chat, w)))"

section \<open>Sequences of calls, and what is measured on a store\<close>

text \<open>A sequence of calls of \<open>addChatMarker\<close> on one conversation, stopping at a throw.\<close>

fun addChatMarker_seq ::
  "env \<Rightarrow> chat \<Rightarrow> (message \<times> jid \<times> string option) list \<Rightarrow> error + chat" where
  "addChatMarker_seq e chat [] = Inr chat"
| "addChatMarker_seq e chat ((message, by_jid, type_arg) # calls) =
     (case addChatMarker e chat message by_jid type_arg of
        Inl err \<Rightarrow> Inl err
      | Inr (marker, chat') \<Rightarrow> addChatMarker_seq e chat' calls)"

text \<open>The level a marker holds for a participant: \<open>marked_by[p]\<close>.\<close>

definition level_of :: "jid \<Rightarrow> chat_marker \<Rightarrow> string option" where
  "level_of p m = map_of (marked_by_or_empty m) p"

text \<open>The markers of a store whose \<open>marked_by\<close> has the participant as a key.\<close>

definition pointers :: "jid \<Rightarrow> chat_marker list \<Rightarrow> chat_marker list" where
  "pointers p store = filter (\<lambda>m. level_of p m \<noteq> None) store"

section \<open>Sample data\<close>

definition romeo_env :: env where
  "romeo_env =
     \<lparr>bare_jid = ''romeo@montague.lit'',
      connection_jid = ''romeo@montague.lit/orchard'',
      CHATROOMS_TYPE = ''chatroom'',
      muc_chat_markers_limit = 2,
      send_chat_markers = [''received'', ''displayed'', ''acknowledged''],
      now = 1600000060456\<rparr>"

definition fresh_world :: world where
  "fresh_world = \<lparr>outbox = [], next_uid = 0, error_log = []\<rparr>"

definition chat_message :: "string \<Rightarrow> jid \<Rightarrow> message" where
  "chat_message i sender =
     \<lparr>msg_type = Some ''chat'', msg_from = sender, msgid = i,
      stanza_id = (\<lambda>k. None), msg_marker = None, is_markable = True,
      msg_time = 1600000000123, msg_body = Some ''wherefore'', is_new = True,
      msg_lists = (\<lambda>k. None)\<rparr>"

definition room_message :: "string \<Rightarrow> string \<Rightarrow> message" where
  "room_message i sid =
     \<lparr>msg_type = Some ''groupchat'', msg_from = ''lounge@montague.lit/juliet'', msgid = i,
      stanza_id = (\<lambda>k. if k = ''lounge@montague.lit'' then Some sid else None),
      msg_marker = None, is_markable = True,
      msg_time = 1600000000123, msg_body = Some ''wherefore'', is_new = True,
      msg_lists = (\<lambda>k. None)\<rparr>"

definition juliet_chat :: chat where
  "juliet_chat =
     \<lparr>chat_type = ''chatbox'', chat_jid = ''juliet@capulet.lit'', occupants = [],
      markers = [], messages = [], hidden = False,
      num_unread = 0, num_unread_general = 0, has_activity = False\<rparr>"

definition lounge :: "jid list \<Rightarrow> chat" where
  "lounge occs =
     \<lparr>chat_type = ''chatroom'', chat_jid = ''lounge@montague.lit'', occupants = occs,
      markers = [], messages = [], hidden = False,
      num_unread = 0, num_unread_general = 0, has_activity = False\<rparr>"

definition juliet_chat_with :: "message \<Rightarrow> chat" where
  "juliet_chat_with m = juliet_chat\<lparr>messages := [m], num_unread := 1\<rparr>"

definition lounge_with :: "message \<Rightarrow> chat" where
  "lounge_with m = (lounge [''juliet'', ''romeo''])\<lparr>messages := [m], num_unread := 1\<rparr>"

text \<open>
  A room of three that already holds a marker: Romeo and Juliet have both marked the
  message with stanza id \<open>s0\<close>.
\<close>

definition marked_lounge :: chat where
  "marked_lounge =
     (lounge [''juliet'', ''mercutio'', ''romeo''])\<lparr>markers :=
        [\<lparr>marker_id = ''s0'',
          marked_by = Some [(''romeo@montague.lit'', ''received''),
                            (''lounge@montague.lit/juliet'', ''received'')],
          marker_time = 1600000000001\<rparr>]\<rparr>"

text \<open>
  A marker stanza from Juliet to Romeo: she has received his message \<open>msgidX\<close>.
\<close>

definition marker_stanza_attrs :: message_attrs where
  "marker_stanza_attrs =
     \<lparr>attrs_to = ''romeo@montague.lit/orchard'',
      attrs_from = ''juliet@capulet.lit/balcony'',
      attrs_marker_id = Some ''msgidX'',
      attrs_marker = Some ''received''\<rparr>"

section \<open>Names used in the statements\<close>

text \<open>
  The names every plain JavaScript object inherits from \<open>Object.prototype\<close>.  Reading
  \<open>obj[k]\<close> for one of them answers the inherited member when \<open>obj\<close> has no such key
  of its own.
\<close>

definition Object_prototype_members :: "string list" where
  "Object_prototype_members =
     [''constructor'', ''__defineGetter__'', ''__defineSetter__'', ''hasOwnProperty'',
      ''__lookupGetter__'', ''__lookupSetter__'', ''isPrototypeOf'',
      ''propertyIsEnumerable'', ''toString'', ''valueOf'', ''__proto__'',
      ''toLocaleString'']"

definition own_name :: "string \<Rightarrow> bool" where
  "own_name k = (k \<notin> set Object_prototype_members)"

text \<open>The shape of a cid: the letter \<open>c\<close> and a decimal number.\<close>

fun cid_shaped :: "string \<Rightarrow> bool" where
  "cid_shaped [] = False"
| "cid_shaped (c # ds) =
     (c = CHR ''c'' \<and> ds \<noteq> [] \<and> list_all (\<lambda>d. d \<in> set ''0123456789'') ds)"

text \<open>
  A plain key: a lookup by it can only be answered by a model that has it as its id.
  It names no member of \<open>Object.prototype\<close>, has not the shape of a cid, and is
  neither of the two strings the lookup makes of a value that is no id,
  \<open>undefined\<close> and \<open>[object Object]\<close>.  A plain store holds markers with plain ids only.
\<close>

definition plain_key :: "string \<Rightarrow> bool" where
  "plain_key k =
     (own_name k \<and> \<not> cid_shaped k \<and> k \<noteq> ''undefined'' \<and> k \<noteq> ''[object Object]'')"

definition plain_store :: "chat_marker list \<Rightarrow> bool" where
  "plain_store store = list_all (\<lambda>m. plain_key (marker_id m)) store"

text \<open>The condition of the first guard of \<open>addChatMarker\<close>.\<close>

definition growth_guard :: "env \<Rightarrow> chat \<Rightarrow> jid \<Rightarrow> bool" where
  "growth_guard e chat by_jid =
     (chat_type chat = CHATROOMS_TYPE e \<and> by_jid \<noteq> bare_jid e \<and>
      int (length (occupants chat)) > muc_chat_markers_limit e)"

text \<open>The store after the scan that takes \<open>by_jid\<close> out of the first marker holding it.\<close>

definition scanned :: "jid \<Rightarrow> chat_marker list \<Rightarrow> chat_marker list" where
  "scanned by_jid store =
     (case findWhere (marks_jid by_jid) store of
        None \<Rightarrow> store
      | Some old \<Rightarrow> removeMarkerJID store old by_jid)"

text \<open>The message as \<open>msg.save\<close> in \<open>sendMarkerForMessage\<close> leaves it.\<close>

definition saved :: "env \<Rightarrow> string \<Rightarrow> message \<Rightarrow> message" where
  "saved e type m =
     m\<lparr>msg_lists := (msg_lists m)(''field_name'' \<mapsto>
        (case msg_lists m (''marked_'' @ type) of None \<Rightarrow> [] | Some js \<Rightarrow> js) @ [bare_jid e])\<rparr>"

text \<open>The level the store of a chat holds for the local user on the marker with a key.\<close>

definition local_level :: "env \<Rightarrow> chat \<Rightarrow> string \<Rightarrow> string option" where
  "local_level e chat k =
     (case markers_get (markers chat) k of
        None \<Rightarrow> None
      | Some r \<Rightarrow> level_of (bare_jid e) r)"

section \<open>Facts about the store\<close>

lemma markers_get_None_iff: "markers_get store k = None \<longleftrightarrow> k \<notin> marker_id ` set store"
  by (auto simp: markers_get_def find_None_iff)

lemma markers_get_SomeD: "markers_get store k = Some m \<Longrightarrow> marker_id m = k \<and> m \<in> set store"
  by (auto simp: markers_get_def find_Some_iff)

lemma replace1_same [simp]: "replace1 x x xs = xs"
  by (induction xs) auto

lemma map_id_replace1:
  "marker_id new = marker_id old \<Longrightarrow> map marker_id (replace1 old new xs) = map marker_id xs"
  by (induction xs) auto

lemma ids_replace1:
  "marker_id new = marker_id old \<Longrightarrow> marker_id ` set (replace1 old new xs) = marker_id ` set xs"
  using map_id_replace1 [of new old xs] by (metis set_map)

lemma markers_get_replace1:
  "markers_get store k = Some old \<Longrightarrow> marker_id new = k \<Longrightarrow>
   markers_get (replace1 old new store) k = Some new"
proof (induction store)
  case Nil
  then show ?case by (simp add: markers_get_def)
next
  case (Cons x xs)
  then show ?case by (auto simp: markers_get_def split: if_splits)
qed

lemma markers_get_append_new:
  "markers_get store k = None \<Longrightarrow> marker_id new = k \<Longrightarrow> markers_get (store @ [new]) k = Some new"
  by (induction store) (auto simp: markers_get_def split: if_splits)

lemma removeMarkerJID_ids:
  assumes "k \<notin> marker_id ` set store"
  shows "k \<notin> marker_id ` set (removeMarkerJID store old j)"
proof (cases "AList.delete j (marked_by_or_empty old) = []")
  case True
  have "set (remove1 old store) \<subseteq> set store" by (rule set_remove1_subset)
  then show ?thesis using assms True by (auto simp: removeMarkerJID_def)
next
  case False
  then show ?thesis using assms by (simp add: removeMarkerJID_def ids_replace1)
qed

lemma scanned_ids: "k \<notin> marker_id ` set store \<Longrightarrow> k \<notin> marker_id ` set (scanned j store)"
  by (simp add: scanned_def removeMarkerJID_ids split: option.splits)

lemma markers_get_scanned:
  "markers_get store k = None \<Longrightarrow> markers_get (scanned j store) k = None"
  by (simp add: markers_get_None_iff scanned_ids)

lemma update_update_same: "AList.update k v (AList.update k v al) = AList.update k v al"
  by (rule AList.update_triv) (simp add: AList.update_conv')

lemma plain_store_iff: "plain_store store \<longleftrightarrow> (\<forall>k \<in> marker_id ` set store. plain_key k)"
  by (auto simp: plain_store_def list_all_iff)

lemma plain_store_replace1:
  "plain_store store \<Longrightarrow> marker_id new = marker_id old \<Longrightarrow> plain_store (replace1 old new store)"
  by (simp add: plain_store_iff ids_replace1)

lemma plain_store_scanned: "plain_store store \<Longrightarrow> plain_store (scanned j store)"
  unfolding plain_store_iff using scanned_ids [of _ store j] by blast

lemma plain_store_append:
  "plain_store store \<Longrightarrow> plain_key (marker_id new) \<Longrightarrow> plain_store (store @ [new])"
  by (simp add: plain_store_def)

section \<open>The two branches of \<open>addChatMarker\<close>\<close>

lemma addChatMarker_found:
  assumes "\<not> growth_guard e chat by_jid"
    and "type_or_default t \<in> set (map fst MARKER_TYPES)"
    and "markers_get (markers chat) (getMessageIdToMark message) = Some marked"
  shows "addChatMarker e chat message by_jid t =
     Inr (Some (marked\<lparr>marked_by :=
                  Some (AList.update by_jid (type_or_default t) (marked_by_or_empty marked))\<rparr>),
          chat\<lparr>markers := replace1 marked
              (marked\<lparr>marked_by :=
                  Some (AList.update by_jid (type_or_default t) (marked_by_or_empty marked))\<rparr>)
              (markers chat)\<rparr>)"
  using assms by (simp add: addChatMarker_def growth_guard_def Let_def)

lemma addChatMarker_new:
  assumes "\<not> growth_guard e chat by_jid"
    and "type_or_default t \<in> set (map fst MARKER_TYPES)"
    and "markers_get (markers chat) (getMessageIdToMark message) = None"
  shows "addChatMarker e chat message by_jid t =
     Inr (Some \<lparr>marker_id = getMessageIdToMark message,
                marked_by = Some [(by_jid, type_or_default t)],
                marker_time = setMilliseconds (now e) (getMilliseconds (msg_time message) + 1)\<rparr>,
          chat\<lparr>markers := scanned by_jid (markers chat) @
             [\<lparr>marker_id = getMessageIdToMark message,
                marked_by = Some [(by_jid, type_or_default t)],
                marker_time = setMilliseconds (now e) (getMilliseconds (msg_time message) + 1)\<rparr>]\<rparr>)"
proof -
  have "markers_get (scanned by_jid (markers chat)) (getMessageIdToMark message) = None"
    using assms(3) by (rule markers_get_scanned)
  then show ?thesis
    using assms
    by (simp add: addChatMarker_def growth_guard_def Let_def markers_add_def scanned_def)
qed

lemma addChatMarker_records:
  assumes g: "\<not> growth_guard e chat by_jid"
    and v: "type_or_default t \<in> set (map fst MARKER_TYPES)"
  shows "\<exists>r store. addChatMarker e chat message by_jid t = Inr (Some r, chat\<lparr>markers := store\<rparr>) \<and>
           markers_get store (getMessageIdToMark message) = Some r \<and>
           level_of by_jid r = Some (type_or_default t)"
proof (cases "markers_get (markers chat) (getMessageIdToMark message)")
  case None
  let ?n = "\<lparr>marker_id = getMessageIdToMark message,
                marked_by = Some [(by_jid, type_or_default t)],
                marker_time = setMilliseconds (now e) (getMilliseconds (msg_time message) + 1)\<rparr>"
  have "markers_get (scanned by_jid (markers chat)) (getMessageIdToMark message) = None"
    using None by (rule markers_get_scanned)
  then have "markers_get (scanned by_jid (markers chat) @ [?n]) (getMessageIdToMark message) = Some ?n"
    by (rule markers_get_append_new) simp
  moreover have "level_of by_jid ?n = Some (type_or_default t)"
    by (simp add: level_of_def marked_by_or_empty_def)
  ultimately show ?thesis
    using addChatMarker_new [OF g v None] by blast
next
  case (Some marked)
  let ?m = "marked\<lparr>marked_by :=
              Some (AList.update by_jid (type_or_default t) (marked_by_or_empty marked))\<rparr>"
  have "markers_get (replace1 marked ?m (markers chat)) (getMessageIdToMark message) = Some ?m"
    using Some by (rule markers_get_replace1) (simp add: markers_get_SomeD [OF Some])
  moreover have "level_of by_jid ?m = Some (type_or_default t)"
    by (simp add: level_of_def marked_by_or_empty_def AList.update_conv')
  ultimately show ?thesis
    using addChatMarker_found [OF g v Some] by blast
qed

lemma displayed_valid: "type_or_default None \<in> set (map fst MARKER_TYPES)"
  by (simp add: type_or_default_def MARKER_TYPES_def)

lemma not_guarded_local: "\<not> growth_guard e chat (bare_jid e)"
  by (simp add: growth_guard_def)

lemma local_record:
  "\<exists>r store. addChatMarker e chat message (bare_jid e) None = Inr (Some r, chat\<lparr>markers := store\<rparr>) \<and>
      local_level e (chat\<lparr>markers := store\<rparr>) (getMessageIdToMark message) = Some ''displayed''"
proof -
  obtain r store where
    "addChatMarker e chat message (bare_jid e) None = Inr (Some r, chat\<lparr>markers := store\<rparr>)"
    "markers_get store (getMessageIdToMark message) = Some r"
    "level_of (bare_jid e) r = Some (type_or_default None)"
    using addChatMarker_records [OF not_guarded_local displayed_valid] by blast
  then show ?thesis
    by (auto simp: local_level_def type_or_default_def)
qed

section \<open>Sending\<close>

lemma getMessageIdToMark_saved: "getMessageIdToMark (saved e type m) = getMessageIdToMark m"
  by (simp add: getMessageIdToMark_def saved_def)

lemma sendMarkerForMessage_sends:
  assumes "type_or_default t \<in> set (send_chat_markers e)" and "is_markable m \<or> force"
  shows "sendMarkerForMessage e w (Some m) t force =
           (True, Some (saved e (type_or_default t) m),
            sendChatMarker e w (getBareJidFromJid (msg_from m)) (msgid m)
              (type_or_default t) (msg_type m))"
  using assms by (auto simp: sendMarkerForMessage_def saved_def Let_def)

lemma sendChatMarker_outbox:
  "\<exists>s. outbox (sendChatMarker e w to_jid mid type mt) = outbox w @ [s] \<and>
       st_marker s = type \<and> st_marker_id s = mid"
  by (simp add: sendChatMarker_def)

text \<open>
  Once the store credits the local user on a room message, with whatever level,
  \<open>sendMarkerForMUCMessage\<close> sends nothing more for it.
\<close>

lemma sendMarkerForMUCMessage_suppressed:
  assumes "markers_get (markers chat) (getMessageIdToMark m) = Some marked"
    and "level_of (bare_jid e) marked = Some level" and "level \<noteq> []"
    and "type_or_default t \<in> set (map fst MARKER_TYPES)"
  shows "sendMarkerForMUCMessage e w chat (Some m) t = Inr (False, w)"
proof -
  have "already_marked e chat (getMessageIdToMark m) (type_or_default t)"
    using assms(1-3)
    by (auto simp: already_marked_def level_of_def marked_by_or_empty_def split: option.splits)
  then show ?thesis
    using assms(4) by (simp add: sendMarkerForMUCMessage_def Let_def)
qed

lemma last_message_sent:
  assumes f: "find (\<lambda>m. force \<or> is_markable m) (rev (messages chat)) = Some msg"
    and t: "t \<in> set (send_chat_markers e)"
  shows "\<exists>chat' w' s. sendMarkerForLastMessage e w chat (Some t) force = Inr (chat', w') \<and>
           outbox w' = outbox w @ [s] \<and> st_marker s = t \<and>
           local_level e chat' (getMessageIdToMark msg) = Some ''displayed''"
proof -
  have p: "is_markable msg \<or> force" using f by (auto simp: find_Some_iff)
  have t': "type_or_default (Some t) \<in> set (send_chat_markers e)"
    using t by (simp add: type_or_default_def)
  let ?c = "chat\<lparr>messages := rev (replace1 msg (saved e t msg) (rev (messages chat)))\<rparr>"
  let ?w = "sendChatMarker e w (getBareJidFromJid (msg_from msg)) (msgid msg) t (msg_type msg)"
  have send: "sendMarkerForMessage e w (Some msg) (Some t) force = (True, Some (saved e t msg), ?w)"
    using sendMarkerForMessage_sends [OF t' p, of w] by (simp add: type_or_default_def)
  obtain r store where
    add: "addChatMarker e ?c (saved e t msg) (bare_jid e) None = Inr (Some r, ?c\<lparr>markers := store\<rparr>)"
    and lvl: "local_level e (?c\<lparr>markers := store\<rparr>) (getMessageIdToMark (saved e t msg))
                = Some ''displayed''"
    using local_record [of e ?c "saved e t msg"] by blast
  have res: "sendMarkerForLastMessage e w chat (Some t) force = Inr (?c\<lparr>markers := store\<rparr>, ?w)"
    using f send add by (simp add: sendMarkerForLastMessage_def Let_def type_or_default_def)
  obtain s where s: "outbox ?w = outbox w @ [s]" "st_marker s = t"
    using sendChatMarker_outbox by blast
  show ?thesis
    using res s lvl unfolding getMessageIdToMark_saved by blast
qed

lemma unread_message_sent:
  assumes "truthy (msg_body m)" "is_new m" "\<not> hidden chat" "is_markable m"
    and t: "''displayed'' \<in> set (send_chat_markers e)"
  shows "\<exists>chat' w' s. handleUnreadMessage e w chat (Some m) = Inr (chat', w') \<and>
           outbox w' = outbox w @ [s] \<and> st_marker s = ''displayed'' \<and>
           local_level e chat' (getMessageIdToMark m) = Some ''displayed''"
proof -
  have t': "type_or_default None \<in> set (send_chat_markers e)"
    using t by (simp add: type_or_default_def)
  let ?s = "saved e ''displayed'' m"
  let ?c = "chat\<lparr>messages := replace1 m ?s (messages chat)\<rparr>"
  let ?w = "sendChatMarker e w (getBareJidFromJid (msg_from m)) (msgid m) ''displayed'' (msg_type m)"
  have send: "sendMarkerForMessage e w (Some m) None False = (True, Some ?s, ?w)"
    using sendMarkerForMessage_sends [OF t', of m False w] assms(4)
    by (simp add: type_or_default_def)
  obtain r store where
    add: "addChatMarker e ?c ?s (bare_jid e) None = Inr (Some r, ?c\<lparr>markers := store\<rparr>)"
    and lvl: "local_level e (?c\<lparr>markers := store\<rparr>) (getMessageIdToMark ?s) = Some ''displayed''"
    using local_record [of e ?c ?s] by blast
  have res: "handleUnreadMessage e w chat (Some m) = Inr (?c\<lparr>markers := store\<rparr>, ?w)"
    using assms(1-3) send add by (simp add: handleUnreadMessage_def Let_def)
  obtain s where s: "outbox ?w = outbox w @ [s]" "st_marker s = ''displayed''"
    using sendChatMarker_outbox by blast
  show ?thesis
    using res s lvl unfolding getMessageIdToMark_saved by blast
qed

lemma unreads_cleared_direct_sent:
  assumes "chat_type chat \<noteq> CHATROOMS_TYPE e" "num_unread chat > 0" "messages chat \<noteq> []"
    "is_markable (last (messages chat))"
    and t: "''displayed'' \<in> set (send_chat_markers e)"
  shows "\<exists>chat' w' s. onUnreadsCleared e w chat = Inr (chat', w') \<and>
           outbox w' = outbox w @ [s] \<and> st_marker s = ''displayed'' \<and>
           local_level e chat' (getMessageIdToMark (last (messages chat))) = Some ''displayed''"
proof -
  let ?m = "last (messages chat)"
  have t': "type_or_default None \<in> set (send_chat_markers e)"
    using t by (simp add: type_or_default_def)
  let ?s = "saved e ''displayed'' ?m"
  let ?c = "chat\<lparr>messages := butlast (messages chat) @ [?s]\<rparr>"
  let ?w = "sendChatMarker e w (getBareJidFromJid (msg_from ?m)) (msgid ?m) ''displayed'' (msg_type ?m)"
  have send: "sendMarkerForMessage e w (Some ?m) None False = (True, Some ?s, ?w)"
    using sendMarkerForMessage_sends [OF t', of ?m False w] assms(4)
    by (simp add: type_or_default_def)
  obtain r store where
    add: "addChatMarker e ?c ?s (bare_jid e) None = Inr (Some r, ?c\<lparr>markers := store\<rparr>)"
    and lvl: "local_level e (?c\<lparr>markers := store\<rparr>) (getMessageIdToMark ?s) = Some ''displayed''"
    using local_record [of e ?c ?s] by blast
  have res: "onUnreadsCleared e w chat = Inr (?c\<lparr>markers := store\<rparr>, ?w)"
    using assms(1-3) send add by (simp add: onUnreadsCleared_def last_message_def Let_def)
  obtain s where s: "outbox ?w = outbox w @ [s]" "st_marker s = ''displayed''"
    using sendChatMarker_outbox by blast
  show ?thesis
    using res s lvl unfolding getMessageIdToMark_saved by blast
qed

lemma unreads_cleared_room_sent:
  assumes "chat_type chat = CHATROOMS_TYPE e"
    "num_unread_general chat > 0 \<or> num_unread chat > 0 \<or> has_activity chat"
    "messages chat \<noteq> []"
    "is_markable (last (messages chat))"
    "\<not> already_marked e chat (getMessageIdToMark (last (messages chat))) ''displayed''"
    "stanza_id (last (messages chat)) (chat_jid chat) = Some sid" "sid \<noteq> []"
    and t: "''displayed'' \<in> set (send_chat_markers e)"
  shows "\<exists>chat' w' s. onUnreadsCleared e w chat = Inr (chat', w') \<and>
           outbox w' = outbox w @ [s] \<and> st_marker s = ''displayed'' \<and>
           local_level e chat' (getMessageIdToMark (last (messages chat))) = Some ''displayed''"
proof -
  let ?m = "last (messages chat)"
  let ?w = "sendChatMarker e w (getBareJidFromJid (msg_from ?m)) sid ''displayed'' (msg_type ?m)"
  have send: "sendMarkerForMUCMessage e w chat (Some ?m) None = Inr (True, ?w)"
    using assms(4-7) t
    by (simp add: sendMarkerForMUCMessage_def Let_def type_or_default_def MARKER_TYPES_def)
  obtain r store where
    add: "addChatMarker e chat ?m (bare_jid e) None = Inr (Some r, chat\<lparr>markers := store\<rparr>)"
    and lvl: "local_level e (chat\<lparr>markers := store\<rparr>) (getMessageIdToMark ?m) = Some ''displayed''"
    using local_record [of e chat ?m] by blast
  have res: "onUnreadsCleared e w chat = Inr (chat\<lparr>markers := store\<rparr>, ?w)"
    using assms(1-3) send add by (simp add: onUnreadsCleared_def last_message_def Let_def)
  obtain s where s: "outbox ?w = outbox w @ [s]" "st_marker s = ''displayed''"
    using sendChatMarker_outbox by blast
  show ?thesis
    using res s lvl by blast
qed

lemma getBareJidFromJid_room:
  "room \<noteq> [] \<Longrightarrow> CHR ''/'' \<notin> set room \<Longrightarrow> getBareJidFromJid (room @ CHR ''/'' # nick) = Some room"
proof -
  assume r: "room \<noteq> []" and n: "CHR ''/'' \<notin> set room"
  have "takeWhile (\<lambda>c. c \<noteq> CHR ''/'') (room @ CHR ''/'' # nick) = room"
    using n by (induction room) auto
  then show ?thesis using r by (simp add: getBareJidFromJid_def)
qed

lemmas model_defs =
  addChatMarker_def type_or_default_def MARKER_TYPES_def getMessageIdToMark_def
  markers_get_def findWhere_def marks_jid_def markers_add_def setMilliseconds_def
  getMilliseconds_def marked_by_or_empty_def removeMarkerJID_def Let_def getBareJidFromJid_def

lemmas sample_defs =
  romeo_env_def juliet_chat_def chat_message_def room_message_def lounge_def fresh_world_def

section \<open>The claims\<close>

text \<open>
  Claim C5 (message-key derivation).  For a message of type \<open>groupchat\<close>,
  \<open>getMessageIdToMark\<close> answers the stanza id stamped for the room the message comes
  from (the bare JID of its sender address) when the message carries one, and the
  client-generated \<open>msgid\<close> when it carries none; for a message of any other type it
  answers \<open>msgid\<close>.  The stanza id is tested with \<open>||\<close>, so an empty stanza id
  counts as none.
\<close>

theorem getMessageIdToMark_derivation:
  "(msg_type m = Some ''groupchat'' \<and>
      stanza_id m (tmpl (getBareJidFromJid (msg_from m))) = Some sid \<and> sid \<noteq> []
        \<longrightarrow> getMessageIdToMark m = sid) \<and>
   (msg_type m = Some ''groupchat'' \<and>
      stanza_id m (tmpl (getBareJidFromJid (msg_from m))) = None
        \<longrightarrow> getMessageIdToMark m = msgid m) \<and>
   (msg_type m = Some ''groupchat'' \<and>
      stanza_id m (tmpl (getBareJidFromJid (msg_from m))) = Some []
        \<longrightarrow> getMessageIdToMark m = msgid m) \<and>
   (msg_type m \<noteq> Some ''groupchat'' \<longrightarrow> getMessageIdToMark m = msgid m)"
  by (simp add: getMessageIdToMark_def)

text \<open>The four cases of C5 on sample messages.\<close>

theorem getMessageIdToMark_derivation_witness:
  "getMessageIdToMark (room_message ''m1'' ''s1'') = ''s1'' \<and>
   getMessageIdToMark ((room_message ''m1'' ''s1'')\<lparr>stanza_id := (\<lambda>k. None)\<rparr>) = ''m1'' \<and>
   getMessageIdToMark (room_message ''m1'' []) = ''m1'' \<and>
   getMessageIdToMark ((chat_message ''m2'' ''juliet@capulet.lit/balcony'')
       \<lparr>stanza_id := (\<lambda>k. Some ''s2'')\<rparr>) = ''m2''"
  using getMessageIdToMark_derivation [of "room_message ''m1'' ''s1''" "''s1''"]
    getMessageIdToMark_derivation [of "(room_message ''m1'' ''s1'')\<lparr>stanza_id := (\<lambda>k. None)\<rparr>"]
    getMessageIdToMark_derivation [of "room_message ''m1'' []"]
    getMessageIdToMark_derivation [of "(chat_message ''m2'' ''juliet@capulet.lit/balcony'')
       \<lparr>stanza_id := (\<lambda>k. Some ''s2'')\<rparr>"]
  by (simp add: room_message_def chat_message_def getBareJidFromJid_def)

text \<open>
  Claim C4 (room growth guard).  In a room whose occupants outnumber
  \<open>muc_chat_markers_limit\<close>, \<open>addChatMarker\<close> for a participant other than the local
  user returns nothing and leaves the chat, and so its markers, as they were.  For the
  local user the call reconciles as it does anywhere else (for a plain message key, a
  plain store and a local address that is an own name): when the store
  has a marker for the message, the local user's entry is merged into that marker,
  which is returned, and nothing else changes; when it has none, the local user is
  taken off the first marker holding them (a marker left empty goes), and a new marker
  for the message, holding the local user alone, is appended and returned; a level
  outside \<open>MARKER_TYPES\<close> throws.
\<close>

theorem room_growth_guard:
  assumes "chat_type chat = CHATROOMS_TYPE e"
    and "int (length (occupants chat)) > muc_chat_markers_limit e"
  shows
    "(by_jid \<noteq> bare_jid e \<longrightarrow> addChatMarker e chat message by_jid t = Inr (None, chat)) \<and>
     (type_or_default t \<in> set (map fst MARKER_TYPES) \<and>
      plain_key (getMessageIdToMark message) \<and> plain_store (markers chat) \<and>
      own_name (bare_jid e) \<and>
      markers_get (markers chat) (getMessageIdToMark message) = Some marked \<longrightarrow>
        addChatMarker e chat message (bare_jid e) t =
          Inr (Some (marked\<lparr>marked_by :=
                       Some (AList.update (bare_jid e) (type_or_default t)
                               (marked_by_or_empty marked))\<rparr>),
               chat\<lparr>markers :=
                 replace1 marked
                   (marked\<lparr>marked_by :=
                       Some (AList.update (bare_jid e) (type_or_default t)
                               (marked_by_or_empty marked))\<rparr>)
                   (markers chat)\<rparr>)) \<and>
     (type_or_default t \<in> set (map fst MARKER_TYPES) \<and>
      plain_key (getMessageIdToMark message) \<and> plain_store (markers chat) \<and>
      own_name (bare_jid e) \<and>
      markers_get (markers chat) (getMessageIdToMark message) = None \<longrightarrow>
        addChatMarker e chat message (bare_jid e) t =
          Inr (Some \<lparr>marker_id = getMessageIdToMark message,
                     marked_by = Some [(bare_jid e, type_or_default t)],
                     marker_time = setMilliseconds (now e)
                                     (getMilliseconds (msg_time message) + 1)\<rparr>,
               chat\<lparr>markers :=
                 scanned (bare_jid e) (markers chat) @
                   [\<lparr>marker_id = getMessageIdToMark message,
                     marked_by = Some [(bare_jid e, type_or_default t)],
                     marker_time = setMilliseconds (now e)
                                     (getMilliseconds (msg_time message) + 1)\<rparr>]\<rparr>)) \<and>
     (type_or_default t \<notin> set (map fst MARKER_TYPES) \<longrightarrow>
        addChatMarker e chat message (bare_jid e) t =
          Inl (TypeError ''Invalid XEP-0333 chat marker type''))"
proof (intro conjI impI)
  assume "by_jid \<noteq> bare_jid e"
  with assms show "addChatMarker e chat message by_jid t = Inr (None, chat)"
    by (simp add: addChatMarker_def)
next
  assume a: "type_or_default t \<in> set (map fst MARKER_TYPES) \<and>
      plain_key (getMessageIdToMark message) \<and> plain_store (markers chat) \<and>
      own_name (bare_jid e) \<and>
      markers_get (markers chat) (getMessageIdToMark message) = Some marked"
  then have v: "type_or_default t \<in> set (map fst MARKER_TYPES)"
    and g: "markers_get (markers chat) (getMessageIdToMark message) = Some marked"
    by simp_all
  show "addChatMarker e chat message (bare_jid e) t =
          Inr (Some (marked\<lparr>marked_by :=
                       Some (AList.update (bare_jid e) (type_or_default t)
                               (marked_by_or_empty marked))\<rparr>),
               chat\<lparr>markers :=
                 replace1 marked
                   (marked\<lparr>marked_by :=
                       Some (AList.update (bare_jid e) (type_or_default t)
                               (marked_by_or_empty marked))\<rparr>)
                   (markers chat)\<rparr>)"
    using addChatMarker_found [OF not_guarded_local v g] .
next
  assume a: "type_or_default t \<in> set (map fst MARKER_TYPES) \<and>
      plain_key (getMessageIdToMark message) \<and> plain_store (markers chat) \<and>
      own_name (bare_jid e) \<and>
      markers_get (markers chat) (getMessageIdToMark message) = None"
  then have v: "type_or_default t \<in> set (map fst MARKER_TYPES)"
    and g: "markers_get (markers chat) (getMessageIdToMark message) = None"
    by simp_all
  show "addChatMarker e chat message (bare_jid e) t =
          Inr (Some \<lparr>marker_id = getMessageIdToMark message,
                     marked_by = Some [(bare_jid e, type_or_default t)],
                     marker_time = setMilliseconds (now e)
                                     (getMilliseconds (msg_time message) + 1)\<rparr>,
               chat\<lparr>markers :=
                 scanned (bare_jid e) (markers chat) @
                   [\<lparr>marker_id = getMessageIdToMark message,
                     marked_by = Some [(bare_jid e, type_or_default t)],
                     marker_time = setMilliseconds (now e)
                                     (getMilliseconds (msg_time message) + 1)\<rparr>]\<rparr>)"
    using addChatMarker_new [OF not_guarded_local v g] .
next
  assume "type_or_default t \<notin> set (map fst MARKER_TYPES)"
  then show "addChatMarker e chat message (bare_jid e) t =
          Inl (TypeError ''Invalid XEP-0333 chat marker type'')"
    by (simp add: addChatMarker_def Let_def)
qed

text \<open>
  C4 in a room of three with a limit of two, whose store holds a marker by Romeo and
  Juliet: Juliet's call is dropped; Romeo's call on the marked message merges; his call
  on a new message moves him off the old marker and appends the new one.
\<close>

theorem room_growth_guard_witness:
  "chat_type marked_lounge = CHATROOMS_TYPE romeo_env \<and>
   int (length (occupants marked_lounge)) > muc_chat_markers_limit romeo_env \<and>
   ''lounge@montague.lit/juliet'' \<noteq> bare_jid romeo_env \<and>
   plain_key ''s0'' \<and> plain_key ''s1'' \<and> plain_store (markers marked_lounge) \<and>
   own_name (bare_jid romeo_env) \<and>
   addChatMarker romeo_env marked_lounge (room_message ''m1'' ''s1'')
       ''lounge@montague.lit/juliet'' (Some ''displayed'')
     = Inr (None, marked_lounge) \<and>
   addChatMarker romeo_env marked_lounge (room_message ''m0'' ''s0'')
       (bare_jid romeo_env) (Some ''acknowledged'')
     = Inr (Some \<lparr>marker_id = ''s0'',
                  marked_by = Some [(''romeo@montague.lit'', ''acknowledged''),
                                    (''lounge@montague.lit/juliet'', ''received'')],
                  marker_time = 1600000000001\<rparr>,
            marked_lounge\<lparr>markers :=
              [\<lparr>marker_id = ''s0'',
                marked_by = Some [(''romeo@montague.lit'', ''acknowledged''),
                                  (''lounge@montague.lit/juliet'', ''received'')],
                marker_time = 1600000000001\<rparr>]\<rparr>) \<and>
   addChatMarker romeo_env marked_lounge (room_message ''m1'' ''s1'')
       (bare_jid romeo_env) None
     = Inr (Some \<lparr>marker_id = ''s1'',
                  marked_by = Some [(''romeo@montague.lit'', ''displayed'')],
                  marker_time = 1600000060124\<rparr>,
            marked_lounge\<lparr>markers :=
              [\<lparr>marker_id = ''s0'',
                marked_by = Some [(''lounge@montague.lit/juliet'', ''received'')],
                marker_time = 1600000000001\<rparr>,
               \<lparr>marker_id = ''s1'',
                marked_by = Some [(''romeo@montague.lit'', ''displayed'')],
                marker_time = 1600000060124\<rparr>]\<rparr>) \<and>
   addChatMarker romeo_env marked_lounge (room_message ''m1'' ''s1'')
       (bare_jid romeo_env) (Some ''bogus'')
     = Inl (TypeError ''Invalid XEP-0333 chat marker type'')"
proof -
  let ?old = "\<lparr>marker_id = ''s0'',
          marked_by = Some [(''romeo@montague.lit'', ''received''),
                            (''lounge@montague.lit/juliet'', ''received'')],
          marker_time = 1600000000001\<rparr>"
  have h1: "chat_type marked_lounge = CHATROOMS_TYPE romeo_env"
    by (simp add: marked_lounge_def lounge_def romeo_env_def)
  have h2: "int (length (occupants marked_lounge)) > muc_chat_markers_limit romeo_env"
    by (simp add: marked_lounge_def lounge_def romeo_env_def)
  have h3: "''lounge@montague.lit/juliet'' \<noteq> bare_jid romeo_env"
    by (simp add: romeo_env_def)
  have p0: "plain_key ''s0''" and p1: "plain_key ''s1''"
    by (simp_all add: plain_key_def own_name_def Object_prototype_members_def)
  have ps: "plain_store (markers marked_lounge)"
    by (simp add: plain_store_def marked_lounge_def lounge_def plain_key_def own_name_def
        Object_prototype_members_def)
  have on: "own_name (bare_jid romeo_env)"
    by (simp add: own_name_def romeo_env_def Object_prototype_members_def)
  have k0: "getMessageIdToMark (room_message ''m0'' ''s0'') = ''s0''"
    and k1: "getMessageIdToMark (room_message ''m1'' ''s1'') = ''s1''"
    by (simp_all add: getMessageIdToMark_def room_message_def getBareJidFromJid_def)
  have m: "markers marked_lounge = [?old]"
    by (simp add: marked_lounge_def lounge_def)
  have g0: "markers_get (markers marked_lounge) ''s0'' = Some ?old"
    and g1: "markers_get (markers marked_lounge) ''s1'' = None"
    by (simp_all add: m markers_get_def)
  have v0: "type_or_default (Some ''acknowledged'') \<in> set (map fst MARKER_TYPES)"
    and v1: "type_or_default None \<in> set (map fst MARKER_TYPES)"
    and v2: "type_or_default (Some ''bogus'') \<notin> set (map fst MARKER_TYPES)"
    by (simp_all add: type_or_default_def MARKER_TYPES_def)
  have b: "bare_jid romeo_env = ''romeo@montague.lit''"
    and n: "now romeo_env = 1600000060456"
    by (simp_all add: romeo_env_def)
  have sc: "scanned ''romeo@montague.lit'' [?old] =
      [\<lparr>marker_id = ''s0'',
        marked_by = Some [(''lounge@montague.lit/juliet'', ''received'')],
        marker_time = 1600000000001\<rparr>]"
    by (simp add: scanned_def findWhere_def marks_jid_def removeMarkerJID_def
        marked_by_or_empty_def Let_def)
  have r1: "addChatMarker romeo_env marked_lounge (room_message ''m1'' ''s1'')
       ''lounge@montague.lit/juliet'' (Some ''displayed'') = Inr (None, marked_lounge)"
    using room_growth_guard [OF h1 h2, where by_jid = "''lounge@montague.lit/juliet''"] h3
    by blast
  have p0': "plain_key (getMessageIdToMark (room_message ''m0'' ''s0''))"
    and p1': "plain_key (getMessageIdToMark (room_message ''m1'' ''s1''))"
    by (simp_all add: k0 k1 p0 p1)
  have g0': "markers_get (markers marked_lounge) (getMessageIdToMark (room_message ''m0'' ''s0''))
      = Some ?old"
    and g1': "markers_get (markers marked_lounge) (getMessageIdToMark (room_message ''m1'' ''s1''))
      = None"
    by (simp_all add: k0 k1 g0 g1)
  have mt: "msg_time (room_message ''m1'' ''s1'') = 1600000000123"
    by (simp add: room_message_def)
  have "addChatMarker romeo_env marked_lounge (room_message ''m0'' ''s0'')
       (bare_jid romeo_env) (Some ''acknowledged'')
     = Inr (Some (?old\<lparr>marked_by :=
                       Some (AList.update (bare_jid romeo_env)
                               (type_or_default (Some ''acknowledged''))
                               (marked_by_or_empty ?old))\<rparr>),
            marked_lounge\<lparr>markers :=
                 replace1 ?old
                   (?old\<lparr>marked_by :=
                       Some (AList.update (bare_jid romeo_env)
                               (type_or_default (Some ''acknowledged''))
                               (marked_by_or_empty ?old))\<rparr>)
                   (markers marked_lounge)\<rparr>)"
    using room_growth_guard [OF h1 h2, where message = "room_message ''m0'' ''s0''"
        and t = "Some ''acknowledged''" and marked = ?old] v0 p0' ps on g0'
    by blast
  then have r2: "addChatMarker romeo_env marked_lounge (room_message ''m0'' ''s0'')
       (bare_jid romeo_env) (Some ''acknowledged'')
     = Inr (Some \<lparr>marker_id = ''s0'',
                  marked_by = Some [(''romeo@montague.lit'', ''acknowledged''),
                                    (''lounge@montague.lit/juliet'', ''received'')],
                  marker_time = 1600000000001\<rparr>,
            marked_lounge\<lparr>markers :=
              [\<lparr>marker_id = ''s0'',
                marked_by = Some [(''romeo@montague.lit'', ''acknowledged''),
                                  (''lounge@montague.lit/juliet'', ''received'')],
                marker_time = 1600000000001\<rparr>]\<rparr>)"
    by (simp add: m b type_or_default_def marked_by_or_empty_def)
  have "addChatMarker romeo_env marked_lounge (room_message ''m1'' ''s1'')
       (bare_jid romeo_env) None
     = Inr (Some \<lparr>marker_id = getMessageIdToMark (room_message ''m1'' ''s1''),
                  marked_by = Some [(bare_jid romeo_env, type_or_default None)],
                  marker_time = setMilliseconds (now romeo_env)
                     (getMilliseconds (msg_time (room_message ''m1'' ''s1'')) + 1)\<rparr>,
            marked_lounge\<lparr>markers :=
              scanned (bare_jid romeo_env) (markers marked_lounge) @
              [\<lparr>marker_id = getMessageIdToMark (room_message ''m1'' ''s1''),
                  marked_by = Some [(bare_jid romeo_env, type_or_default None)],
                  marker_time = setMilliseconds (now romeo_env)
                     (getMilliseconds (msg_time (room_message ''m1'' ''s1'')) + 1)\<rparr>]\<rparr>)"
    using room_growth_guard [OF h1 h2, where message = "room_message ''m1'' ''s1''"
        and t = None] v1 p1' ps on g1'
    by blast
  then have r3: "addChatMarker romeo_env marked_lounge (room_message ''m1'' ''s1'')
       (bare_jid romeo_env) None
     = Inr (Some \<lparr>marker_id = ''s1'',
                  marked_by = Some [(''romeo@montague.lit'', ''displayed'')],
                  marker_time = 1600000060124\<rparr>,
            marked_lounge\<lparr>markers :=
              [\<lparr>marker_id = ''s0'',
                marked_by = Some [(''lounge@montague.lit/juliet'', ''received'')],
                marker_time = 1600000000001\<rparr>,
               \<lparr>marker_id = ''s1'',
                marked_by = Some [(''romeo@montague.lit'', ''displayed'')],
                marker_time = 1600000060124\<rparr>]\<rparr>)"
    by (simp add: k1 m b n sc mt type_or_default_def setMilliseconds_def getMilliseconds_def)
  have r4: "addChatMarker romeo_env marked_lounge (room_message ''m1'' ''s1'')
       (bare_jid romeo_env) (Some ''bogus'')
     = Inl (TypeError ''Invalid XEP-0333 chat marker type'')"
    using room_growth_guard [OF h1 h2, where message = "room_message ''m1'' ''s1''"
        and t = "Some ''bogus''"] v2
    by blast
  from h1 h2 h3 p0 p1 ps on r1 r2 r3 r4 show ?thesis by blast
qed

text \<open>
  Claim C6 (idempotence).  For every chat, message, participant and level of
  \<open>MARKER_TYPES\<close> (given or defaulted), where the message key and the store are plain
  and the participant's address is an own name, \<open>addChatMarker\<close> returns, and a
  second call with the same arguments on the chat the first one left returns the same
  marker and leaves that chat as it is, whatever the clock shows by then.  The store
  stays plain, so the same holds after any number of such calls.
\<close>

theorem addChatMarker_idempotent:
  assumes v: "type_or_default t \<in> set (map fst MARKER_TYPES)"
    and pk: "plain_key (getMessageIdToMark message)"
    and ps: "plain_store (markers chat)"
    and on: "own_name by_jid"
  shows "\<exists>r chat'. addChatMarker e chat message by_jid t = Inr (r, chat') \<and>
           addChatMarker (e\<lparr>now := later\<rparr>) chat' message by_jid t = Inr (r, chat') \<and>
           plain_store (markers chat')"
proof (cases "growth_guard e chat by_jid")
  case True
  then show ?thesis
    using ps by (simp add: growth_guard_def addChatMarker_def)
next
  case g: False
  let ?k = "getMessageIdToMark message"
  let ?e = "e\<lparr>now := later\<rparr>"
  show ?thesis
  proof (cases "markers_get (markers chat) ?k")
    case None
    let ?n = "\<lparr>marker_id = ?k, marked_by = Some [(by_jid, type_or_default t)],
                marker_time = setMilliseconds (now e) (getMilliseconds (msg_time message) + 1)\<rparr>"
    let ?c = "chat\<lparr>markers := scanned by_jid (markers chat) @ [?n]\<rparr>"
    have first: "addChatMarker e chat message by_jid t = Inr (Some ?n, ?c)"
      using addChatMarker_new [OF g v None] .
    have "markers_get (scanned by_jid (markers chat)) ?k = None"
      using None by (rule markers_get_scanned)
    then have "markers_get (scanned by_jid (markers chat) @ [?n]) ?k = Some ?n"
      by (rule markers_get_append_new) simp
    then have get: "markers_get (markers ?c) ?k = Some ?n" by simp
    have g': "\<not> growth_guard ?e ?c by_jid"
      using g by (simp add: growth_guard_def)
    have same: "?n\<lparr>marked_by :=
        Some (AList.update by_jid (type_or_default t) (marked_by_or_empty ?n))\<rparr> = ?n"
      by (simp add: marked_by_or_empty_def)
    have second: "addChatMarker ?e ?c message by_jid t = Inr (Some ?n, ?c)"
      using addChatMarker_found [OF g' v get] unfolding same by simp
    have "plain_store (scanned by_jid (markers chat) @ [?n])"
      using ps pk by (simp add: plain_store_scanned plain_store_append)
    then have "plain_store (markers ?c)" by simp
    with first second show ?thesis by blast
  next
    case (Some marked)
    let ?m = "marked\<lparr>marked_by :=
        Some (AList.update by_jid (type_or_default t) (marked_by_or_empty marked))\<rparr>"
    let ?c = "chat\<lparr>markers := replace1 marked ?m (markers chat)\<rparr>"
    have first: "addChatMarker e chat message by_jid t = Inr (Some ?m, ?c)"
      using addChatMarker_found [OF g v Some] .
    have "markers_get (replace1 marked ?m (markers chat)) ?k = Some ?m"
      using Some by (rule markers_get_replace1) (simp add: markers_get_SomeD [OF Some])
    then have get: "markers_get (markers ?c) ?k = Some ?m" by simp
    have g': "\<not> growth_guard ?e ?c by_jid"
      using g by (simp add: growth_guard_def)
    have same: "?m\<lparr>marked_by :=
        Some (AList.update by_jid (type_or_default t) (marked_by_or_empty ?m))\<rparr> = ?m"
      by (simp add: marked_by_or_empty_def update_update_same)
    have second: "addChatMarker ?e ?c message by_jid t = Inr (Some ?m, ?c)"
      using addChatMarker_found [OF g' v get] unfolding same by simp
    have "plain_store (replace1 marked ?m (markers chat))"
      using ps by (rule plain_store_replace1) simp
    then have "plain_store (markers ?c)" by simp
    with first second show ?thesis by blast
  qed
qed

text \<open>C6 for Romeo acknowledging a new message in the room that holds a marker of his.\<close>

theorem addChatMarker_idempotent_witness:
  "type_or_default (Some ''acknowledged'') \<in> set (map fst MARKER_TYPES) \<and>
   plain_key (getMessageIdToMark (room_message ''m1'' ''s1'')) \<and>
   plain_store (markers marked_lounge) \<and>
   own_name ''romeo@montague.lit'' \<and>
   (\<exists>r chat'.
      addChatMarker romeo_env marked_lounge (room_message ''m1'' ''s1'')
        ''romeo@montague.lit'' (Some ''acknowledged'') = Inr (r, chat') \<and>
      addChatMarker (romeo_env\<lparr>now := 1600000099999\<rparr>) chat' (room_message ''m1'' ''s1'')
        ''romeo@montague.lit'' (Some ''acknowledged'') = Inr (r, chat') \<and>
      plain_store (markers chat'))"
proof -
  have h: "type_or_default (Some ''acknowledged'') \<in> set (map fst MARKER_TYPES)"
    by (simp add: type_or_default_def MARKER_TYPES_def)
  have pk: "plain_key (getMessageIdToMark (room_message ''m1'' ''s1''))"
    by (simp add: getMessageIdToMark_def room_message_def getBareJidFromJid_def
        plain_key_def own_name_def Object_prototype_members_def)
  have ps: "plain_store (markers marked_lounge)"
    by (simp add: plain_store_def marked_lounge_def lounge_def plain_key_def own_name_def
        Object_prototype_members_def)
  have on: "own_name ''romeo@montague.lit''"
    by (simp add: own_name_def Object_prototype_members_def)
  show ?thesis
    using h pk ps on
      addChatMarker_idempotent [OF h pk ps on, of romeo_env 1600000099999]
    by blast
qed

text \<open>
  Claim C9 (invalid level), as stated, at an input where it fails: in a room of three
  with a limit of two, \<open>addChatMarker\<close> for another participant with the level \<open>bogus\<close>
  returns nothing instead of throwing, since the growth guard is tested before the
  level.
\<close>

theorem invalid_level_behind_guard_counterexample:
  "''bogus'' \<notin> set (map fst MARKER_TYPES) \<and>
   addChatMarker romeo_env (lounge [''juliet'', ''mercutio'', ''romeo''])
     (room_message ''m1'' ''s1'') ''juliet@capulet.lit'' (Some ''bogus'')
     = Inr (None, lounge [''juliet'', ''mercutio'', ''romeo''])"
  by (simp add: addChatMarker_def MARKER_TYPES_def romeo_env_def lounge_def)

text \<open>
  Claim C9, amended.  With a level outside \<open>MARKER_TYPES\<close>, \<open>sendMarkerForMUCMessage\<close>
  always throws the \<open>TypeError\<close>, and \<open>addChatMarker\<close> throws it unless the growth guard
  applies, in which case it returns nothing and leaves the chat as it was.  A throw
  happens before anything is written: the model has no state to return for it.
\<close>

theorem invalid_level_rejected:
  assumes "t \<notin> set (map fst MARKER_TYPES)"
  shows "sendMarkerForMUCMessage e w chat msg (Some t)
           = Inl (TypeError ''Invalid XEP-0333 chat marker type'') \<and>
         (\<not> growth_guard e chat by_jid \<longrightarrow>
            addChatMarker e chat message by_jid (Some t)
              = Inl (TypeError ''Invalid XEP-0333 chat marker type'')) \<and>
         (growth_guard e chat by_jid \<longrightarrow>
            addChatMarker e chat message by_jid (Some t) = Inr (None, chat))"
  using assms
  by (simp add: sendMarkerForMUCMessage_def addChatMarker_def growth_guard_def type_or_default_def)

text \<open>C9 amended, outside and behind the guard.\<close>

theorem invalid_level_rejected_witness:
  "''bogus'' \<notin> set (map fst MARKER_TYPES) \<and>
   \<not> growth_guard romeo_env juliet_chat ''juliet@capulet.lit'' \<and>
   growth_guard romeo_env (lounge [''juliet'', ''mercutio'', ''romeo'']) ''juliet@capulet.lit'' \<and>
   sendMarkerForMUCMessage romeo_env fresh_world (lounge [''juliet'', ''mercutio'', ''romeo''])
       (Some (room_message ''m1'' ''s1'')) (Some ''bogus'')
     = Inl (TypeError ''Invalid XEP-0333 chat marker type'') \<and>
   addChatMarker romeo_env juliet_chat (chat_message ''m1'' ''romeo@montague.lit/orchard'')
       ''juliet@capulet.lit'' (Some ''bogus'')
     = Inl (TypeError ''Invalid XEP-0333 chat marker type'') \<and>
   addChatMarker romeo_env (lounge [''juliet'', ''mercutio'', ''romeo''])
       (room_message ''m1'' ''s1'') ''juliet@capulet.lit'' (Some ''bogus'')
     = Inr (None, lounge [''juliet'', ''mercutio'', ''romeo''])"
proof -
  have h: "''bogus'' \<notin> set (map fst MARKER_TYPES)"
    by (simp add: MARKER_TYPES_def)
  have g1: "\<not> growth_guard romeo_env juliet_chat ''juliet@capulet.lit''"
    by (simp add: growth_guard_def romeo_env_def juliet_chat_def)
  have g2: "growth_guard romeo_env (lounge [''juliet'', ''mercutio'', ''romeo'']) ''juliet@capulet.lit''"
    by (simp add: growth_guard_def romeo_env_def lounge_def)
  show ?thesis
    using h g1 g2
      invalid_level_rejected [OF h, where e = romeo_env and w = fresh_world
        and chat = juliet_chat and msg = "Some (room_message ''m1'' ''s1'')"
        and by_jid = "''juliet@capulet.lit''"
        and message = "chat_message ''m1'' ''romeo@montague.lit/orchard''"]
      invalid_level_rejected [OF h, where e = romeo_env and w = fresh_world
        and chat = "lounge [''juliet'', ''mercutio'', ''romeo'']"
        and msg = "Some (room_message ''m1'' ''s1'')"
        and by_jid = "''juliet@capulet.lit''"
        and message = "room_message ''m1'' ''s1''"]
    by blast
qed

text \<open>
  Claim C10 (the local marker is recorded at the default level).  Where the message
  key and the store are plain and the local address is an own name, whenever
  \<open>sendMarkerForLastMessage\<close> sends a marker of type \<open>t\<close> for the message it finds, one
  stanza of type \<open>t\<close> goes out and the store then credits the local user with
  \<open>displayed\<close> on that message, so for \<open>received\<close> and \<open>acknowledged\<close> the stored level
  is not the level sent.  \<open>handleUnreadMessage\<close> and \<open>onUnreadsCleared\<close> (direct chat and
  room) record \<open>displayed\<close> in the same way; they also send \<open>displayed\<close>.
\<close>

theorem local_marker_recorded_as_displayed:
  "(find (\<lambda>m. force \<or> is_markable m) (rev (messages chat)) = Some msg \<and>
    t \<in> set (send_chat_markers e) \<and>
    plain_key (getMessageIdToMark msg) \<and> plain_store (markers chat) \<and>
    own_name (bare_jid e) \<longrightarrow>
      (\<exists>chat' w' s. sendMarkerForLastMessage e w chat (Some t) force = Inr (chat', w') \<and>
         outbox w' = outbox w @ [s] \<and> st_marker s = t \<and>
         local_level e chat' (getMessageIdToMark msg) = Some ''displayed'')) \<and>
   (truthy (msg_body m) \<and> is_new m \<and> \<not> hidden chat \<and> is_markable m \<and>
    ''displayed'' \<in> set (send_chat_markers e) \<and>
    plain_key (getMessageIdToMark m) \<and> plain_store (markers chat) \<and>
    own_name (bare_jid e) \<longrightarrow>
      (\<exists>chat' w' s. handleUnreadMessage e w chat (Some m) = Inr (chat', w') \<and>
         outbox w' = outbox w @ [s] \<and> st_marker s = ''displayed'' \<and>
         local_level e chat' (getMessageIdToMark m) = Some ''displayed'')) \<and>
   (chat_type chat \<noteq> CHATROOMS_TYPE e \<and> num_unread chat > 0 \<and> messages chat \<noteq> [] \<and>
    is_markable (last (messages chat)) \<and> ''displayed'' \<in> set (send_chat_markers e) \<and>
    plain_key (getMessageIdToMark (last (messages chat))) \<and> plain_store (markers chat) \<and>
    own_name (bare_jid e) \<longrightarrow>
      (\<exists>chat' w' s. onUnreadsCleared e w chat = Inr (chat', w') \<and>
         outbox w' = outbox w @ [s] \<and> st_marker s = ''displayed'' \<and>
         local_level e chat' (getMessageIdToMark (last (messages chat))) = Some ''displayed'')) \<and>
   (chat_type chat = CHATROOMS_TYPE e \<and>
    (num_unread_general chat > 0 \<or> num_unread chat > 0 \<or> has_activity chat) \<and>
    messages chat \<noteq> [] \<and> is_markable (last (messages chat)) \<and>
    \<not> already_marked e chat (getMessageIdToMark (last (messages chat))) ''displayed'' \<and>
    stanza_id (last (messages chat)) (chat_jid chat) = Some sid \<and> sid \<noteq> [] \<and>
    ''displayed'' \<in> set (send_chat_markers e) \<and>
    plain_key (getMessageIdToMark (last (messages chat))) \<and> plain_store (markers chat) \<and>
    own_name (bare_jid e) \<longrightarrow>
      (\<exists>chat' w' s. onUnreadsCleared e w chat = Inr (chat', w') \<and>
         outbox w' = outbox w @ [s] \<and> st_marker s = ''displayed'' \<and>
         local_level e chat' (getMessageIdToMark (last (messages chat))) = Some ''displayed''))"
proof (intro conjI impI)
  assume "find (\<lambda>m. force \<or> is_markable m) (rev (messages chat)) = Some msg \<and>
    t \<in> set (send_chat_markers e) \<and>
    plain_key (getMessageIdToMark msg) \<and> plain_store (markers chat) \<and>
    own_name (bare_jid e)"
  then show "\<exists>chat' w' s. sendMarkerForLastMessage e w chat (Some t) force = Inr (chat', w') \<and>
         outbox w' = outbox w @ [s] \<and> st_marker s = t \<and>
         local_level e chat' (getMessageIdToMark msg) = Some ''displayed''"
    using last_message_sent by blast
next
  assume "truthy (msg_body m) \<and> is_new m \<and> \<not> hidden chat \<and> is_markable m \<and>
    ''displayed'' \<in> set (send_chat_markers e) \<and>
    plain_key (getMessageIdToMark m) \<and> plain_store (markers chat) \<and>
    own_name (bare_jid e)"
  then show "\<exists>chat' w' s. handleUnreadMessage e w chat (Some m) = Inr (chat', w') \<and>
         outbox w' = outbox w @ [s] \<and> st_marker s = ''displayed'' \<and>
         local_level e chat' (getMessageIdToMark m) = Some ''displayed''"
    using unread_message_sent by blast
next
  assume "chat_type chat \<noteq> CHATROOMS_TYPE e \<and> num_unread chat > 0 \<and> messages chat \<noteq> [] \<and>
    is_markable (last (messages chat)) \<and> ''displayed'' \<in> set (send_chat_markers e) \<and>
    plain_key (getMessageIdToMark (last (messages chat))) \<and> plain_store (markers chat) \<and>
    own_name (bare_jid e)"
  then show "\<exists>chat' w' s. onUnreadsCleared e w chat = Inr (chat', w') \<and>
         outbox w' = outbox w @ [s] \<and> st_marker s = ''displayed'' \<and>
         local_level e chat' (getMessageIdToMark (last (messages chat))) = Some ''displayed''"
    using unreads_cleared_direct_sent by blast
next
  assume a: "chat_type chat = CHATROOMS_TYPE e \<and>
    (num_unread_general chat > 0 \<or> num_unread chat > 0 \<or> has_activity chat) \<and>
    messages chat \<noteq> [] \<and> is_markable (last (messages chat)) \<and>
    \<not> already_marked e chat (getMessageIdToMark (last (messages chat))) ''displayed'' \<and>
    stanza_id (last (messages chat)) (chat_jid chat) = Some sid \<and> sid \<noteq> [] \<and>
    ''displayed'' \<in> set (send_chat_markers e) \<and>
    plain_key (getMessageIdToMark (last (messages chat))) \<and> plain_store (markers chat) \<and>
    own_name (bare_jid e)"
  show "\<exists>chat' w' s. onUnreadsCleared e w chat = Inr (chat', w') \<and>
         outbox w' = outbox w @ [s] \<and> st_marker s = ''displayed'' \<and>
         local_level e chat' (getMessageIdToMark (last (messages chat))) = Some ''displayed''"
    using a unreads_cleared_room_sent [of chat e sid w] by blast
qed

text \<open>C10 on the four paths, with \<open>acknowledged\<close> sent by \<open>sendMarkerForLastMessage\<close>.\<close>

text \<open>C10 on the four paths, with \<open>acknowledged\<close> sent by \<open>sendMarkerForLastMessage\<close>.\<close>

theorem local_marker_recorded_as_displayed_witness:
  "(find (\<lambda>m. False \<or> is_markable m)
      (rev (messages (juliet_chat_with (chat_message ''m1'' ''juliet@capulet.lit/balcony''))))
      = Some (chat_message ''m1'' ''juliet@capulet.lit/balcony'') \<and>
    ''acknowledged'' \<in> set (send_chat_markers romeo_env) \<and>
    plain_key (getMessageIdToMark (chat_message ''m1'' ''juliet@capulet.lit/balcony'')) \<and>
    plain_store (markers (juliet_chat_with (chat_message ''m1'' ''juliet@capulet.lit/balcony''))) \<and>
    own_name (bare_jid romeo_env)) \<and>
   (plain_key (getMessageIdToMark (last (messages (lounge_with (room_message ''m1'' ''s1''))))) \<and>
    plain_store (markers (lounge_with (room_message ''m1'' ''s1'')))) \<and>
   (\<exists>chat' w' s.
      sendMarkerForLastMessage romeo_env fresh_world
        (juliet_chat_with (chat_message ''m1'' ''juliet@capulet.lit/balcony''))
        (Some ''acknowledged'') False = Inr (chat', w') \<and>
      outbox w' = outbox fresh_world @ [s] \<and> st_marker s = ''acknowledged'' \<and>
      local_level romeo_env chat'
        (getMessageIdToMark (chat_message ''m1'' ''juliet@capulet.lit/balcony''))
        = Some ''displayed'') \<and>
   (\<exists>chat' w' s.
      handleUnreadMessage romeo_env fresh_world
        (juliet_chat_with (chat_message ''m1'' ''juliet@capulet.lit/balcony''))
        (Some (chat_message ''m1'' ''juliet@capulet.lit/balcony'')) = Inr (chat', w') \<and>
      outbox w' = outbox fresh_world @ [s] \<and> st_marker s = ''displayed'' \<and>
      local_level romeo_env chat'
        (getMessageIdToMark (chat_message ''m1'' ''juliet@capulet.lit/balcony''))
        = Some ''displayed'') \<and>
   (\<exists>chat' w' s.
      onUnreadsCleared romeo_env fresh_world
        (juliet_chat_with (chat_message ''m1'' ''juliet@capulet.lit/balcony'')) = Inr (chat', w') \<and>
      outbox w' = outbox fresh_world @ [s] \<and> st_marker s = ''displayed'' \<and>
      local_level romeo_env chat'
        (getMessageIdToMark (last (messages
           (juliet_chat_with (chat_message ''m1'' ''juliet@capulet.lit/balcony'')))))
        = Some ''displayed'') \<and>
   (\<exists>chat' w' s.
      onUnreadsCleared romeo_env fresh_world (lounge_with (room_message ''m1'' ''s1''))
        = Inr (chat', w') \<and>
      outbox w' = outbox fresh_world @ [s] \<and> st_marker s = ''displayed'' \<and>
      local_level romeo_env chat'
        (getMessageIdToMark (last (messages (lounge_with (room_message ''m1'' ''s1'')))))
        = Some ''displayed'')"
proof -
  let ?m = "chat_message ''m1'' ''juliet@capulet.lit/balcony''"
  let ?c = "juliet_chat_with ?m"
  let ?r = "lounge_with (room_message ''m1'' ''s1'')"
  have pl: "plain_key (getMessageIdToMark ?m) \<and> plain_store (markers ?c) \<and>
    own_name (bare_jid romeo_env)"
    by (simp add: juliet_chat_with_def juliet_chat_def chat_message_def romeo_env_def
        getMessageIdToMark_def plain_key_def plain_store_def own_name_def
        Object_prototype_members_def)
  have pl3: "plain_key (getMessageIdToMark (last (messages ?c)))"
    using pl by (simp add: juliet_chat_with_def)
  have pl4: "plain_key (getMessageIdToMark (last (messages ?r))) \<and> plain_store (markers ?r)"
    by (simp add: lounge_with_def lounge_def room_message_def getMessageIdToMark_def
        getBareJidFromJid_def plain_key_def plain_store_def own_name_def
        Object_prototype_members_def)
  have h1: "find (\<lambda>m. False \<or> is_markable m) (rev (messages ?c)) = Some ?m \<and>
    ''acknowledged'' \<in> set (send_chat_markers romeo_env)"
    by (simp add: juliet_chat_with_def juliet_chat_def chat_message_def romeo_env_def)
  have h2: "truthy (msg_body ?m) \<and> is_new ?m \<and> \<not> hidden ?c \<and> is_markable ?m \<and>
    ''displayed'' \<in> set (send_chat_markers romeo_env)"
    by (simp add: juliet_chat_with_def juliet_chat_def chat_message_def romeo_env_def)
  have h3: "chat_type ?c \<noteq> CHATROOMS_TYPE romeo_env \<and> num_unread ?c > 0 \<and> messages ?c \<noteq> [] \<and>
    is_markable (last (messages ?c)) \<and> ''displayed'' \<in> set (send_chat_markers romeo_env)"
    by (simp add: juliet_chat_with_def juliet_chat_def chat_message_def romeo_env_def)
  have h4: "chat_type ?r = CHATROOMS_TYPE romeo_env \<and>
    (num_unread_general ?r > 0 \<or> num_unread ?r > 0 \<or> has_activity ?r) \<and>
    messages ?r \<noteq> [] \<and> is_markable (last (messages ?r)) \<and>
    \<not> already_marked romeo_env ?r (getMessageIdToMark (last (messages ?r))) ''displayed'' \<and>
    stanza_id (last (messages ?r)) (chat_jid ?r) = Some ''s1'' \<and> ''s1'' \<noteq> [] \<and>
    ''displayed'' \<in> set (send_chat_markers romeo_env)"
    by (simp add: lounge_with_def lounge_def room_message_def romeo_env_def already_marked_def
        markers_get_def MARKER_TYPES_def)
  note thm1 = local_marker_recorded_as_displayed [where force = False and chat = ?c
        and msg = ?m and m = ?m and t = "''acknowledged''" and e = romeo_env and w = fresh_world]
  note thm2 = local_marker_recorded_as_displayed [where chat = ?r and sid = "''s1''"
        and e = romeo_env and w = fresh_world]
  have p1: "\<exists>chat' w' s.
      sendMarkerForLastMessage romeo_env fresh_world ?c (Some ''acknowledged'') False
        = Inr (chat', w') \<and>
      outbox w' = outbox fresh_world @ [s] \<and> st_marker s = ''acknowledged'' \<and>
      local_level romeo_env chat' (getMessageIdToMark ?m) = Some ''displayed''"
    using thm1 h1 pl by blast
  have p2: "\<exists>chat' w' s.
      handleUnreadMessage romeo_env fresh_world ?c (Some ?m) = Inr (chat', w') \<and>
      outbox w' = outbox fresh_world @ [s] \<and> st_marker s = ''displayed'' \<and>
      local_level romeo_env chat' (getMessageIdToMark ?m) = Some ''displayed''"
    using thm1 h2 pl by blast
  have p3: "\<exists>chat' w' s.
      onUnreadsCleared romeo_env fresh_world ?c = Inr (chat', w') \<and>
      outbox w' = outbox fresh_world @ [s] \<and> st_marker s = ''displayed'' \<and>
      local_level romeo_env chat' (getMessageIdToMark (last (messages ?c))) = Some ''displayed''"
    using thm1 h3 pl pl3 by blast
  have p4: "\<exists>chat' w' s.
      onUnreadsCleared romeo_env fresh_world ?r = Inr (chat', w') \<and>
      outbox w' = outbox fresh_world @ [s] \<and> st_marker s = ''displayed'' \<and>
      local_level romeo_env chat' (getMessageIdToMark (last (messages ?r))) = Some ''displayed''"
    using thm2 h4 pl pl4 by blast
  from h1 pl pl4 p1 p2 p3 p4 show ?thesis by blast
qed

section \<open>Where the code departs from the claims\<close>

text \<open>
  Claim C1 (single pointer) at a failing input.  Juliet marks message \<open>m1\<close>, Romeo marks
  \<open>m2\<close>, then Juliet marks \<open>m2\<close>.  The third call finds the marker of \<open>m2\<close> and merges
  Juliet into it without the scan of the other branch, so Juliet stays on the marker of
  \<open>m1\<close> as well: two markers hold her.
\<close>

theorem second_pointer_left_behind:
  "addChatMarker_seq romeo_env juliet_chat
     [(chat_message ''m1'' ''romeo@montague.lit/orchard'', ''juliet@capulet.lit'', Some ''displayed''),
      (chat_message ''m2'' ''romeo@montague.lit/orchard'', ''romeo@montague.lit'', Some ''displayed''),
      (chat_message ''m2'' ''romeo@montague.lit/orchard'', ''juliet@capulet.lit'', Some ''displayed'')]
   = Inr (juliet_chat\<lparr>markers :=
       [\<lparr>marker_id = ''m1'',
         marked_by = Some [(''juliet@capulet.lit'', ''displayed'')],
         marker_time = 1600000060124\<rparr>,
        \<lparr>marker_id = ''m2'',
         marked_by = Some [(''romeo@montague.lit'', ''displayed''),
                           (''juliet@capulet.lit'', ''displayed'')],
         marker_time = 1600000060124\<rparr>]\<rparr>) \<and>
   length (pointers ''juliet@capulet.lit''
       [\<lparr>marker_id = ''m1'',
         marked_by = Some [(''juliet@capulet.lit'', ''displayed'')],
         marker_time = 1600000060124\<rparr>,
        \<lparr>marker_id = ''m2'',
         marked_by = Some [(''romeo@montague.lit'', ''displayed''),
                           (''juliet@capulet.lit'', ''displayed'')],
         marker_time = 1600000060124\<rparr>]) = 2"
  by (simp add: model_defs sample_defs pointers_def level_of_def)

text \<open>
  Claim C2 (room rank guard) at a failing input.  The local user holds \<open>received\<close>
  (rank 0) on a room message and sends \<open>displayed\<close> (rank 1).  The guard's condition
  is the stored entry itself, which is a non-empty string, so the send is suppressed:
  nothing goes out and the answer is \<open>false\<close>.
\<close>

theorem higher_rank_suppressed:
  "addChatMarker romeo_env (lounge []) (room_message ''m1'' ''s1'')
       ''romeo@montague.lit'' (Some ''received'')
     = Inr (Some \<lparr>marker_id = ''s1'',
                  marked_by = Some [(''romeo@montague.lit'', ''received'')],
                  marker_time = 1600000060124\<rparr>,
            (lounge [])\<lparr>markers :=
               [\<lparr>marker_id = ''s1'',
                 marked_by = Some [(''romeo@montague.lit'', ''received'')],
                 marker_time = 1600000060124\<rparr>]\<rparr>) \<and>
   map_of MARKER_TYPES ''received'' = Some 0 \<and>
   map_of MARKER_TYPES ''displayed'' = Some 1 \<and>
   sendMarkerForMUCMessage romeo_env fresh_world
       ((lounge [])\<lparr>markers :=
          [\<lparr>marker_id = ''s1'',
            marked_by = Some [(''romeo@montague.lit'', ''received'')],
            marker_time = 1600000060124\<rparr>]\<rparr>)
       (Some (room_message ''m1'' ''s1'')) (Some ''displayed'')
     = Inr (False, fresh_world)"
  by (simp add: model_defs sample_defs sendMarkerForMUCMessage_def already_marked_def)

text \<open>
  Claim C3 (inbound marker) at a failing input.  Juliet's stanza marks Romeo's message
  \<open>msgidX\<close> as \<open>received\<close>.  \<open>handleChatMarker\<close> answers \<open>true\<close>, but it passes the
  found message's own \<open>from\<close> and \<open>marker\<close> to \<open>addChatMarker\<close>: the marker credits
  Romeo's address with \<open>displayed\<close>.  The second equation is the call the claim
  describes, with the stanza's sender and level.
\<close>

theorem marker_credited_to_wrong_jid:
  "(case handleChatMarker romeo_env marker_stanza_attrs
          (juliet_chat\<lparr>messages := [chat_message ''msgidX'' ''romeo@montague.lit/orchard'']\<rparr>)
          False of
      Inl err \<Rightarrow> None
    | Inr (handled, model') \<Rightarrow> Some (handled, map marked_by (markers model')))
     = Some (True, [Some [(''romeo@montague.lit/orchard'', ''displayed'')]]) \<and>
   (case addChatMarker romeo_env
          (juliet_chat\<lparr>messages := [chat_message ''msgidX'' ''romeo@montague.lit/orchard'']\<rparr>)
          (chat_message ''msgidX'' ''romeo@montague.lit/orchard'')
          (attrs_from marker_stanza_attrs) (attrs_marker marker_stanza_attrs) of
      Inl err \<Rightarrow> None
    | Inr (marker, model') \<Rightarrow> Some (True, map marked_by (markers model')))
     = Some (True, [Some [(''juliet@capulet.lit/balcony'', ''received'')]])"
  by (simp add: model_defs sample_defs handleChatMarker_def marker_stanza_attrs_def)

text \<open>
  Claim C7 (local bookkeeping) at a failing input.  A \<open>displayed\<close> marker is sent for a
  markable message and the function answers \<open>true\<close>; the local user's address is saved
  under the attribute \<open>field_name\<close>, and \<open>marked_displayed\<close> stays undefined.
\<close>

theorem sent_marker_saved_under_field_name:
  "(case sendMarkerForMessage romeo_env fresh_world
          (Some (chat_message ''m1'' ''juliet@capulet.lit/balcony'')) (Some ''displayed'') False of
      (sent, msg', w') \<Rightarrow>
        (sent, map st_marker (outbox w'),
         map_option (\<lambda>m. msg_lists m ''marked_displayed'') msg',
         map_option (\<lambda>m. msg_lists m ''field_name'') msg'))
     = (True, [''displayed''], Some None, Some (Some [''romeo@montague.lit'']))"
  by (simp add: model_defs sample_defs sendMarkerForMessage_def sendChatMarker_def)

text \<open>
  Claim C8 (ordering time) at a failing input.  The message is a minute older than the
  clock.  The new marker's time is the clock's instant with its millisecond field set
  to that of the message plus one, not the message's time plus one millisecond.
\<close>

theorem marker_time_follows_clock:
  "now romeo_env = 1600000060456 \<and>
   msg_time (chat_message ''m1'' ''romeo@montague.lit/orchard'') + 1 = 1600000000124 \<and>
   (case addChatMarker romeo_env juliet_chat (chat_message ''m1'' ''romeo@montague.lit/orchard'')
           ''juliet@capulet.lit'' (Some ''displayed'') of
      Inl err \<Rightarrow> None
    | Inr (marker, chat') \<Rightarrow> map_option marker_time marker)
     = Some 1600000060124"
  by (simp add: model_defs sample_defs)

end
